theory Spec2Isabelle
  imports
    Main
    "HOL-Library.AList"
    "HOL-Library.Multiset"
    "HOL-Library.Char_ord"
    "HOL-Library.List_Lexorder"
begin

section \<open>The complaint system: data model\<close>

text \<open>
  The program is one Python module, \<^verbatim>\<open>complaint_system.py\<close>, a Streamlit application.
  Its persistent state is two JSON documents (\<^verbatim>\<open>data/users.json\<close>, a dictionary from email
  to user record, and \<^verbatim>\<open>data/complaints.json\<close>, a list of complaint records) and a
  directory of uploaded evidence files; its session state is the current user, the page
  selector and the selected complaint.

  Python strings are \<^typ>\<open>string\<close>; their comparison is the lexicographic order on
  character codes (\<^theory_text>\<open>List_Lexorder\<close> over \<^theory_text>\<open>Char_ord\<close>), which is how Python compares
  the ISO timestamps it sorts by. A timestamp is the string \<^verbatim>\<open>datetime.now().isoformat()\<close>
  returned; the clock readings are inputs of the model.
\<close>

type_synonym timestamp = string

text \<open>
  A user record: the dictionary with the keys \<^verbatim>\<open>name\<close>, \<^verbatim>\<open>email\<close>, \<^verbatim>\<open>phone\<close>,
  \<^verbatim>\<open>password\<close> (the hash), \<^verbatim>\<open>is_admin\<close>, \<^verbatim>\<open>created_at\<close>.
\<close>

record user =
  u_name :: string
  u_email :: string
  u_phone :: string
  u_password :: string
  u_is_admin :: bool
  u_created_at :: timestamp

text \<open>
  A complaint record: the dictionary with the keys \<^verbatim>\<open>id\<close>, \<^verbatim>\<open>user_email\<close>,
  \<^verbatim>\<open>user_name\<close>, \<^verbatim>\<open>title\<close>, \<^verbatim>\<open>category\<close>, \<^verbatim>\<open>description\<close>, \<^verbatim>\<open>location\<close>,
  \<^verbatim>\<open>incident_date\<close>, \<^verbatim>\<open>evidence_file\<close>, \<^verbatim>\<open>status\<close>, \<^verbatim>\<open>department\<close>,
  \<^verbatim>\<open>admin_notes\<close>, \<^verbatim>\<open>created_at\<close>, \<^verbatim>\<open>updated_at\<close>. Python's \<^verbatim>\<open>None\<close> in the three
  optional fields is \<^term>\<open>None\<close>.
\<close>

record complaint =
  c_id :: int
  c_user_email :: string
  c_user_name :: string
  c_title :: string
  c_category :: string
  c_description :: string
  c_location :: string
  c_incident_date :: string
  c_evidence_file :: "string option"
  c_status :: string
  c_department :: "string option"
  c_admin_notes :: "string option"
  c_created_at :: timestamp
  c_updated_at :: timestamp

text \<open>
  The stores and the session. \<^verbatim>\<open>users.json\<close> is an association list in insertion order,
  as a Python dictionary is; the upload directory maps a file name to its bytes.
  The session of lines 84-87 starts with no user and the page \<^verbatim>\<open>'login'\<close>;
  \<^verbatim>\<open>selected_complaint\<close> is absent from the session until a page sets it.
\<close>

record world =
  users_file :: "(string \<times> user) list"
  complaints_file :: "complaint list"
  upload_dir :: "(string \<times> string) list"
  current_user :: "user option"
  page :: string
  selected_complaint :: "int option"

definition initial_world :: world where
  "initial_world =
     \<lparr>users_file = [], complaints_file = [], upload_dir = [],
      current_user = None, page = ''login'', selected_complaint = None\<rparr>"

text \<open>A new browser session over the stores as they are (lines 84-87).\<close>

definition new_session :: "world \<Rightarrow> world" where
  "new_session w = w\<lparr>current_user := None, page := ''login'', selected_complaint := None\<rparr>"

subsection \<open>What a page run reports\<close>

text \<open>
  The messages of \<^verbatim>\<open>st.error\<close>, by the error kinds of the specification:
  a validation error (a required field is missing, the two passwords differ), a duplicate
  email, invalid credentials, a complaint that is not found. No page has a message for a
  date.
\<close>

datatype validation = MissingField | PasswordMismatch

datatype error = ValidationError validation | DuplicateEmail | InvalidCredentials | NotFound

text \<open>
  The exceptions a page can raise on a state it was not written for: Python's, and
  Streamlit's \<^verbatim>\<open>StreamlitDuplicateElementKey\<close> for two widgets with one key.
\<close>

datatype py_exception = TypeError | AttributeError | ValueError | DuplicateElementKey

text \<open>
  One run of a page: it only rendered; it changed the session and called \<^verbatim>\<open>st.rerun()\<close>;
  it performed its action, reported success and reran; it reported an error; it raised.
\<close>

datatype outcome = Rendered | Rerun | Done | Failed error | Raised py_exception

section \<open>Credential store\<close>

text \<open>
  \<^verbatim>\<open>hash_password\<close> is \<^verbatim>\<open>hashlib.sha256(password.encode()).hexdigest()\<close>. SHA-256 is a
  library function, so the digest of the encoded password is a parameter \<open>sha256\<close> of
  everything that hashes: the theorems hold for every such function.
\<close>

definition hash_password :: "(string \<Rightarrow> string) \<Rightarrow> string \<Rightarrow> string" where
  "hash_password sha256 password = sha256 password"

definition load_users :: "world \<Rightarrow> (string \<times> user) list" where
  "load_users w = users_file w"

definition save_users :: "(string \<times> user) list \<Rightarrow> world \<Rightarrow> world" where
  "save_users users w = w\<lparr>users_file := users\<rparr>"

definition load_complaints :: "world \<Rightarrow> complaint list" where
  "load_complaints w = complaints_file w"

definition save_complaints :: "complaint list \<Rightarrow> world \<Rightarrow> world" where
  "save_complaints complaints w = w\<lparr>complaints_file := complaints\<rparr>"

text \<open>\<^verbatim>\<open>init_system\<close> (lines 118-130); \<open>now\<close> is the clock reading it would take.\<close>

definition default_admin :: "(string \<Rightarrow> string) \<Rightarrow> timestamp \<Rightarrow> user" where
  "default_admin sha256 now =
     \<lparr>u_name = ''Admin'', u_email = ''admin@justice.gov'', u_phone = ''0000000000'',
      u_password = hash_password sha256 ''admin123'', u_is_admin = True,
      u_created_at = now\<rparr>"

definition init_system :: "(string \<Rightarrow> string) \<Rightarrow> timestamp \<Rightarrow> world \<Rightarrow> world" where
  "init_system sha256 now w =
     (let users = load_users w in
      if map_of users ''admin@justice.gov'' = None
      then save_users (AList.update ''admin@justice.gov'' (default_admin sha256 now) users) w
      else w)"

text \<open>
  The submit branch of \<^verbatim>\<open>login_page\<close> (lines 172-182), the specification's
  \<^verbatim>\<open>authenticate\<close>. A stored user record is a non-empty dictionary, so \<^verbatim>\<open>if user\<close> asks
  whether the email has a record.
\<close>

definition authenticate :: "(string \<Rightarrow> string) \<Rightarrow> string \<Rightarrow> string \<Rightarrow> world \<Rightarrow> outcome \<times> world" where
  "authenticate sha256 email password w =
     (case map_of (load_users w) email of
        None \<Rightarrow> (Failed InvalidCredentials, w)
      | Some user \<Rightarrow>
          if u_password user = hash_password sha256 password
          then (Done, w\<lparr>current_user := Some user, page := ''dashboard''\<rparr>)
          else (Failed InvalidCredentials, w))"

text \<open>
  The submit branch of \<^verbatim>\<open>register_page\<close> (lines 208-229), the specification's
  \<^verbatim>\<open>register\<close>: the five text inputs, checked in the source's order.
\<close>

definition new_user :: "(string \<Rightarrow> string) \<Rightarrow> timestamp \<Rightarrow> string \<Rightarrow> string \<Rightarrow> string \<Rightarrow> string \<Rightarrow> user" where
  "new_user sha256 now name email phone password =
     \<lparr>u_name = name, u_email = email, u_phone = phone,
      u_password = hash_password sha256 password, u_is_admin = False,
      u_created_at = now\<rparr>"

definition register ::
  "(string \<Rightarrow> string) \<Rightarrow> timestamp \<Rightarrow> string \<Rightarrow> string \<Rightarrow> string \<Rightarrow> string \<Rightarrow> string \<Rightarrow> world
     \<Rightarrow> outcome \<times> world" where
  "register sha256 now name email phone password confirm_password w =
     (if \<not> (name \<noteq> [] \<and> email \<noteq> [] \<and> phone \<noteq> [] \<and> password \<noteq> [] \<and> confirm_password \<noteq> [])
      then (Failed (ValidationError MissingField), w)
      else if password \<noteq> confirm_password
      then (Failed (ValidationError PasswordMismatch), w)
      else
        let users = load_users w in
        if map_of users email \<noteq> None
        then (Failed DuplicateEmail, w)
        else (Done,
              (save_users (AList.update email (new_user sha256 now name email phone password) users) w)
                \<lparr>page := ''login''\<rparr>))"

section \<open>Dates, numbers and the form widgets\<close>

text \<open>
  A \<^verbatim>\<open>datetime.date\<close>: Python compares two dates by year, then month, then day.
\<close>

record date =
  d_year :: nat
  d_month :: nat
  d_day :: nat

definition date_le :: "date \<Rightarrow> date \<Rightarrow> bool" where
  "date_le a b \<longleftrightarrow>
     d_year a < d_year b \<or>
     (d_year a = d_year b \<and>
        (d_month a < d_month b \<or> (d_month a = d_month b \<and> d_day a \<le> d_day b)))"

text \<open>\<^verbatim>\<open>str\<close> of an integer, as the f-string of line 341 formats the complaint id.\<close>

fun str_nat :: "nat \<Rightarrow> string" where
  "str_nat n =
     (if n < 10 then [''0123456789'' ! n]
      else str_nat (n div 10) @ [''0123456789'' ! (n mod 10)])"

declare str_nat.simps [simp del]

definition str_int :: "int \<Rightarrow> string" where
  "str_int i = (if i < 0 then ''-'' @ str_nat (nat (- i)) else str_nat (nat i))"

definition zfill :: "nat \<Rightarrow> string \<Rightarrow> string" where
  "zfill width s = replicate (width - length s) (CHR ''0'') @ s"

text \<open>\<^verbatim>\<open>date.isoformat()\<close>: \<^verbatim>\<open>YYYY-MM-DD\<close>.\<close>

definition isoformat :: "date \<Rightarrow> string" where
  "isoformat d =
     zfill 4 (str_nat (d_year d)) @ ''-'' @ zfill 2 (str_nat (d_month d)) @ ''-'' @
     zfill 2 (str_nat (d_day d))"

text \<open>
  The clock of one run of the script: \<^verbatim>\<open>date.today()\<close> and the readings of
  \<^verbatim>\<open>datetime.now().isoformat()\<close>: the one \<^verbatim>\<open>init_system\<close> takes when it creates the
  administrator, and the first and the second one a page takes (filing reads the clock
  twice, lines 358 and 359; registration and the update read it once).
\<close>

record clock =
  date_today :: date
  now_init :: timestamp
  now_a :: timestamp
  now_b :: timestamp

text \<open>
  A \<^verbatim>\<open>st.selectbox\<close> returns one of the options it was given, so each select box is an
  enumeration, with the string the source stores for each choice. The option lists are
  those of lines 308, 549 and 555.
\<close>

datatype category = NoCategory | Police | Court | CivicBody | Corruption | PublicServices | Other

fun category_str :: "category \<Rightarrow> string" where
  "category_str NoCategory = []"
| "category_str Police = ''Police''"
| "category_str Court = ''Court''"
| "category_str CivicBody = ''Civic Body''"
| "category_str Corruption = ''Corruption''"
| "category_str PublicServices = ''Public Services''"
| "category_str Other = ''Other''"

datatype status = Filed | UnderReview | InProgress | Resolved | Rejected

fun status_str :: "status \<Rightarrow> string" where
  "status_str Filed = ''Filed''"
| "status_str UnderReview = ''Under Review''"
| "status_str InProgress = ''In Progress''"
| "status_str Resolved = ''Resolved''"
| "status_str Rejected = ''Rejected''"

definition status_options :: "string list" where
  "status_options = [''Filed'', ''Under Review'', ''In Progress'', ''Resolved'', ''Rejected'']"

datatype department =
  NoDepartment | PoliceDepartment | CourtServices | CivicServices | AntiCorruptionBureau

fun department_str :: "department \<Rightarrow> string" where
  "department_str NoDepartment = []"
| "department_str PoliceDepartment = ''Police Department''"
| "department_str CourtServices = ''Court Services''"
| "department_str CivicServices = ''Civic Services''"
| "department_str AntiCorruptionBureau = ''Anti-Corruption Bureau''"

definition department_options :: "string list" where
  "department_options =
     [[], ''Police Department'', ''Court Services'', ''Civic Services'',
      ''Anti-Corruption Bureau'']"

text \<open>
  \<^verbatim>\<open>st.date_input\<close> is a widget of the Streamlit library. Line 315 calls it without a
  value, so it starts at today, and with \<^verbatim>\<open>max_value=date.today()\<close>. The widget returns a
  date within its bounds: it takes a picked date over when that is not after
  \<open>max_value\<close>, and otherwise keeps its value, today. It has no error path, and the page
  has no check of the date it returns.
\<close>

definition date_input :: "date \<Rightarrow> date \<Rightarrow> date" where
  "date_input max_value picked = (if date_le picked max_value then picked else max_value)"

text \<open>
  The buttons a listing draws, one per complaint and in the order of the listing, with the
  key \<^verbatim>\<open>view_<id>\<close> or \<^verbatim>\<open>manage_<id>\<close> (lines 395 and 509). \<^verbatim>\<open>st.button\<close> raises for
  a key that an earlier button of the run has; the button that was clicked returns
  \<^verbatim>\<open>True\<close>, and the page then changes the session and reruns. \<open>seen\<close> holds the ids
  drawn so far; the result is the id whose button was clicked, if any.
\<close>

fun draw_buttons :: "int list \<Rightarrow> int option \<Rightarrow> int list \<Rightarrow> py_exception + int option" where
  "draw_buttons seen clicked [] = Inr None"
| "draw_buttons seen clicked (i # ids) =
     (if i \<in> set seen then Inl DuplicateElementKey
      else if clicked = Some i then Inr (Some i)
      else draw_buttons (i # seen) clicked ids)"

section \<open>Complaint store\<close>

text \<open>
  Python's \<^verbatim>\<open>sorted(xs, key=k, reverse=True)\<close>: descending by key, stable (elements with
  equal keys keep their order).
\<close>

definition sorted_reverse :: "('a \<Rightarrow> 'k::linorder) \<Rightarrow> 'a list \<Rightarrow> 'a list" where
  "sorted_reverse key xs = rev (sort_key key (rev xs))"

text \<open>
  The listing of \<^verbatim>\<open>my_complaints_page\<close> (lines 375-384), the specification's
  \<^verbatim>\<open>list_for\<close>, and the listing of \<^verbatim>\<open>admin_dashboard_page\<close> (lines 496-499), its
  \<^verbatim>\<open>list_all\<close>.
\<close>

definition list_for :: "string \<Rightarrow> complaint list \<Rightarrow> complaint list" where
  "list_for owner_email complaints =
     sorted_reverse c_created_at (filter (\<lambda>c. c_user_email c = owner_email) complaints)"

definition list_all_complaints :: "complaint list \<Rightarrow> complaint list" where
  "list_all_complaints complaints = sorted_reverse c_created_at complaints"

text \<open>
  The submit branch of \<^verbatim>\<open>file_complaint_page\<close> (lines 332-367). \<open>incident_date\<close> is the
  date the widget returned; \<open>evidence_file\<close> is the uploaded file, its name and its bytes.
  The evidence is written before the record is built, so a session without a user has
  written the file when \<^verbatim>\<open>current_user['email']\<close> raises.
\<close>

definition new_complaint ::
  "timestamp \<Rightarrow> timestamp \<Rightarrow> int \<Rightarrow> user \<Rightarrow> string \<Rightarrow> string \<Rightarrow> string \<Rightarrow> string \<Rightarrow> date
     \<Rightarrow> string option \<Rightarrow> complaint" where
  "new_complaint now_created now_updated complaint_id user title category description location
       incident_date evidence_filename =
     \<lparr>c_id = complaint_id, c_user_email = u_email user, c_user_name = u_name user,
      c_title = title, c_category = category, c_description = description,
      c_location = location, c_incident_date = isoformat incident_date,
      c_evidence_file = evidence_filename, c_status = ''Filed'', c_department = None,
      c_admin_notes = None, c_created_at = now_created, c_updated_at = now_updated\<rparr>"

definition file_complaint ::
  "timestamp \<Rightarrow> timestamp \<Rightarrow> string \<Rightarrow> string \<Rightarrow> string \<Rightarrow> string \<Rightarrow> date
     \<Rightarrow> (string \<times> string) option \<Rightarrow> world \<Rightarrow> outcome \<times> world" where
  "file_complaint now_created now_updated title category description location incident_date
       evidence_file w =
     (if \<not> (title \<noteq> [] \<and> category \<noteq> [] \<and> description \<noteq> [] \<and> location \<noteq> [])
      then (Failed (ValidationError MissingField), w)
      else
        let complaints = load_complaints w;
            complaint_id = int (length complaints) + 1;
            evidence_filename =
              (case evidence_file of
                 None \<Rightarrow> None
               | Some (fname, buffer) \<Rightarrow> Some (str_int complaint_id @ ''_'' @ fname));
            w1 =
              (case evidence_file of
                 None \<Rightarrow> w
               | Some (fname, buffer) \<Rightarrow>
                   w\<lparr>upload_dir :=
                       AList.update (str_int complaint_id @ ''_'' @ fname) buffer (upload_dir w)\<rparr>)
        in case current_user w of
             None \<Rightarrow> (Raised TypeError, w1)
           | Some user \<Rightarrow>
               (Done,
                (save_complaints
                   (complaints @
                    [new_complaint now_created now_updated complaint_id user title category
                       description location incident_date evidence_filename])
                   w1)
                  \<lparr>page := ''my_complaints''\<rparr>))"

text \<open>
  The loop of \<^verbatim>\<open>manage_complaint_page\<close> (lines 574-580), the specification's
  \<^verbatim>\<open>update_status\<close>: the first complaint with the id is updated and the loop breaks.
\<close>

fun update_status ::
  "timestamp \<Rightarrow> int \<Rightarrow> string \<Rightarrow> string \<Rightarrow> string \<Rightarrow> complaint list \<Rightarrow> complaint list" where
  "update_status now cid status department admin_notes [] = []"
| "update_status now cid status department admin_notes (c # cs) =
     (if c_id c = cid
      then c\<lparr>c_status := status,
             c_department := (if department \<noteq> [] then Some department else None),
             c_admin_notes := (if admin_notes \<noteq> [] then Some admin_notes else None),
             c_updated_at := now\<rparr> # cs
      else c # update_status now cid status department admin_notes cs)"

section \<open>Pages and routing\<close>

text \<open>
  Streamlit runs the script once per interaction; in that run the widget the user acted
  on returns its value (a clicked button returns \<^verbatim>\<open>True\<close>, a submitted form hands over
  its fields). An event is that interaction. A button that the page does not draw in the
  current state cannot have been clicked, so a page ignores the events of widgets it did
  not draw.
\<close>

datatype event =
    NoEvent
  | LoginSubmit string string
  | ClickRegisterHere
  | RegisterSubmit string string string string string
  | ClickLoginHere
  | SidebarDashboard
  | SidebarAdminPanel
  | SidebarFileComplaint
  | SidebarMyComplaints
  | SidebarLogout
  | ClickManageAll
  | ClickFileNew
  | ClickViewMine
  | ComplaintSubmit string category string string date "(string \<times> string) option"
  | ComplaintCancel
  | ClickFileFirst
  | ClickViewDetails int
  | ClickBackToMine
  | ClickManage int
  | UpdateSubmit status department string
  | ClickBackToDashboard

text \<open>\<^verbatim>\<open>login_page\<close> (lines 158-189).\<close>

definition login_page :: "(string \<Rightarrow> string) \<Rightarrow> event \<Rightarrow> world \<Rightarrow> outcome \<times> world" where
  "login_page sha256 ev w =
     (case ev of
        LoginSubmit email password \<Rightarrow> authenticate sha256 email password w
      | ClickRegisterHere \<Rightarrow> (Rerun, w\<lparr>page := ''register''\<rparr>)
      | _ \<Rightarrow> (Rendered, w))"

text \<open>\<^verbatim>\<open>register_page\<close> (lines 191-234).\<close>

definition register_page ::
  "(string \<Rightarrow> string) \<Rightarrow> clock \<Rightarrow> event \<Rightarrow> world \<Rightarrow> outcome \<times> world" where
  "register_page sha256 clk ev w =
     (case ev of
        RegisterSubmit name email phone password confirm_password \<Rightarrow>
          register sha256 (now_a clk) name email phone password confirm_password w
      | ClickLoginHere \<Rightarrow> (Rerun, w\<lparr>page := ''login''\<rparr>)
      | _ \<Rightarrow> (Rendered, w))"

text \<open>
  \<^verbatim>\<open>dashboard_page\<close> (lines 236-295). Line 241 reads \<^verbatim>\<open>user['name']\<close>, which raises
  \<^verbatim>\<open>TypeError\<close> when there is no user. The statistics of \<^verbatim>\<open>get_complaint_stats\<close> are
  only displayed.
\<close>

definition dashboard_page :: "event \<Rightarrow> world \<Rightarrow> outcome \<times> world" where
  "dashboard_page ev w =
     (case current_user w of
        None \<Rightarrow> (Raised TypeError, w)
      | Some user \<Rightarrow>
          (case ev of
             ClickManageAll \<Rightarrow>
               if u_is_admin user then (Rerun, w\<lparr>page := ''admin_dashboard''\<rparr>)
               else (Rendered, w)
           | ClickFileNew \<Rightarrow>
               if \<not> u_is_admin user then (Rerun, w\<lparr>page := ''file_complaint''\<rparr>)
               else (Rendered, w)
           | ClickViewMine \<Rightarrow>
               if \<not> u_is_admin user then (Rerun, w\<lparr>page := ''my_complaints''\<rparr>)
               else (Rendered, w)
           | _ \<Rightarrow> (Rendered, w)))"

text \<open>
  \<^verbatim>\<open>file_complaint_page\<close> (lines 297-367): the form with its widgets, then the cancel
  and the submit branch. \<open>picked\<close> is the date the user picked; the incident date of the
  submit branch is what the date widget returns for it.
\<close>

definition file_complaint_page :: "clock \<Rightarrow> event \<Rightarrow> world \<Rightarrow> outcome \<times> world" where
  "file_complaint_page clk ev w =
     (case ev of
        ComplaintCancel \<Rightarrow> (Rerun, w\<lparr>page := ''dashboard''\<rparr>)
      | ComplaintSubmit title category description location picked evidence_file \<Rightarrow>
          file_complaint (now_a clk) (now_b clk) title (category_str category) description
            location (date_input (date_today clk) picked) evidence_file w
      | _ \<Rightarrow> (Rendered, w))"

text \<open>
  \<^verbatim>\<open>my_complaints_page\<close> (lines 369-400). The comprehension of line 376 reads
  \<^verbatim>\<open>current_user['email']\<close> once per complaint, so without a user it raises unless the
  complaint list is empty. The loop of line 384 draws one button per listed complaint.
\<close>

definition my_complaints_page :: "event \<Rightarrow> world \<Rightarrow> outcome \<times> world" where
  "my_complaints_page ev w =
     (let complaints = load_complaints w in
      if current_user w = None \<and> complaints \<noteq> [] then (Raised TypeError, w)
      else
        let user_complaints =
              (case current_user w of
                 None \<Rightarrow> []
               | Some user \<Rightarrow> filter (\<lambda>c. c_user_email c = u_email user) complaints)
        in if user_complaints = []
           then (case ev of
                   ClickFileFirst \<Rightarrow> (Rerun, w\<lparr>page := ''file_complaint''\<rparr>)
                 | _ \<Rightarrow> (Rendered, w))
           else (case draw_buttons []
                        (case ev of ClickViewDetails cid \<Rightarrow> Some cid | _ \<Rightarrow> None)
                        (map c_id (sorted_reverse c_created_at user_complaints)) of
                   Inl e \<Rightarrow> (Raised e, w)
                 | Inr None \<Rightarrow> (Rendered, w)
                 | Inr (Some cid) \<Rightarrow>
                     (Rerun, w\<lparr>selected_complaint := Some cid, page := ''view_complaint''\<rparr>)))"

text \<open>
  Lines 409 and 523: \<^verbatim>\<open>next((c for c in complaints if c['id'] == selected_complaint), None)\<close>,
  the first complaint with the selected id. The generator reads \<^verbatim>\<open>selected_complaint\<close>
  from the session once per complaint, so a session that never set it raises
  \<^verbatim>\<open>AttributeError\<close> unless the complaint list is empty.
\<close>

definition find_selected :: "world \<Rightarrow> complaint list \<Rightarrow> py_exception + complaint option" where
  "find_selected w complaints =
     (case selected_complaint w of
        None \<Rightarrow> if complaints = [] then Inr None else Inl AttributeError
      | Some sel \<Rightarrow> Inr (find (\<lambda>c. c_id c = sel) complaints))"

text \<open>\<^verbatim>\<open>view_complaint_page\<close> (lines 402-444).\<close>

definition view_complaint_page :: "event \<Rightarrow> world \<Rightarrow> outcome \<times> world" where
  "view_complaint_page ev w =
     (case find_selected w (load_complaints w) of
        Inl e \<Rightarrow> (Raised e, w)
      | Inr None \<Rightarrow> (Failed NotFound, w)
      | Inr (Some complaint) \<Rightarrow>
          (case ev of
             ClickBackToMine \<Rightarrow> (Rerun, w\<lparr>page := ''my_complaints''\<rparr>)
           | _ \<Rightarrow> (Rendered, w)))"

text \<open>
  \<^verbatim>\<open>admin_dashboard_page\<close> (lines 446-514). The loop of line 499 draws one button per
  complaint; there is none for an empty list.
\<close>

definition admin_dashboard_page :: "event \<Rightarrow> world \<Rightarrow> outcome \<times> world" where
  "admin_dashboard_page ev w =
     (let complaints = load_complaints w in
      case draw_buttons []
             (case ev of ClickManage cid \<Rightarrow> Some cid | _ \<Rightarrow> None)
             (map c_id (list_all_complaints complaints)) of
        Inl e \<Rightarrow> (Raised e, w)
      | Inr None \<Rightarrow> (Rendered, w)
      | Inr (Some cid) \<Rightarrow>
          (Rerun, w\<lparr>selected_complaint := Some cid, page := ''manage_complaint''\<rparr>))"

text \<open>
  \<^verbatim>\<open>manage_complaint_page\<close> (lines 516-585). The two select boxes are drawn with the
  index of the stored value among their options: \<^verbatim>\<open>list.index\<close> raises \<^verbatim>\<open>ValueError\<close> for
  a stored status that is not an option, and for a stored department that is neither
  empty nor an option.
\<close>

definition manage_complaint_page :: "clock \<Rightarrow> event \<Rightarrow> world \<Rightarrow> outcome \<times> world" where
  "manage_complaint_page clk ev w =
     (let complaints = load_complaints w in
      case find_selected w complaints of
        Inl e \<Rightarrow> (Raised e, w)
      | Inr None \<Rightarrow> (Failed NotFound, w)
      | Inr (Some complaint) \<Rightarrow>
          if c_status complaint \<notin> set status_options then (Raised ValueError, w)
          else if (case c_department complaint of
                     None \<Rightarrow> False
                   | Some d \<Rightarrow> d \<noteq> [] \<and> d \<notin> set department_options)
          then (Raised ValueError, w)
          else
            (case ev of
               ClickBackToDashboard \<Rightarrow> (Rerun, w\<lparr>page := ''admin_dashboard''\<rparr>)
             | UpdateSubmit status department admin_notes \<Rightarrow>
                 (Done,
                  (save_complaints
                     (update_status (now_a clk) (c_id complaint) (status_str status)
                        (department_str department) admin_notes complaints)
                     w)
                    \<lparr>page := ''admin_dashboard''\<rparr>)
             | _ \<Rightarrow> (Rendered, w)))"

text \<open>
  \<^verbatim>\<open>sidebar\<close> (lines 588-621): the new state when one of its buttons was clicked (the run
  then stops at \<^verbatim>\<open>st.rerun()\<close>), \<^term>\<open>None\<close> otherwise.
\<close>

definition sidebar :: "event \<Rightarrow> world \<Rightarrow> world option" where
  "sidebar ev w =
     (case current_user w of
        None \<Rightarrow> None
      | Some user \<Rightarrow>
          (case ev of
             SidebarDashboard \<Rightarrow> Some (w\<lparr>page := ''dashboard''\<rparr>)
           | SidebarAdminPanel \<Rightarrow>
               if u_is_admin user then Some (w\<lparr>page := ''admin_dashboard''\<rparr>) else None
           | SidebarFileComplaint \<Rightarrow>
               if \<not> u_is_admin user then Some (w\<lparr>page := ''file_complaint''\<rparr>) else None
           | SidebarMyComplaints \<Rightarrow>
               if \<not> u_is_admin user then Some (w\<lparr>page := ''my_complaints''\<rparr>) else None
           | SidebarLogout \<Rightarrow> Some (w\<lparr>current_user := None, page := ''login''\<rparr>)
           | _ \<Rightarrow> None))"

text \<open>
  \<^verbatim>\<open>main\<close> (lines 624-650): which page function ran, what it reported, and the state it
  left. A selector that is none of the eight runs no page.
\<close>

datatype view =
    LoginView | RegisterView | DashboardView | FileComplaintView | MyComplaintsView
  | ViewComplaintView | AdminDashboardView | ManageComplaintView | NoView

definition route :: "(string \<Rightarrow> string) \<Rightarrow> clock \<Rightarrow> event \<Rightarrow> world \<Rightarrow> view \<times> outcome \<times> world" where
  "route sha256 clk ev w =
     (if page w = ''login'' then (LoginView, login_page sha256 ev w)
      else if page w = ''register'' then (RegisterView, register_page sha256 clk ev w)
      else if page w = ''dashboard'' then (DashboardView, dashboard_page ev w)
      else if page w = ''file_complaint'' then (FileComplaintView, file_complaint_page clk ev w)
      else if page w = ''my_complaints'' then (MyComplaintsView, my_complaints_page ev w)
      else if page w = ''view_complaint'' then (ViewComplaintView, view_complaint_page ev w)
      else if page w = ''admin_dashboard'' then (AdminDashboardView, admin_dashboard_page ev w)
      else if page w = ''manage_complaint''
      then (ManageComplaintView, manage_complaint_page clk ev w)
      else (NoView, Rendered, w))"

definition main :: "(string \<Rightarrow> string) \<Rightarrow> clock \<Rightarrow> event \<Rightarrow> world \<Rightarrow> view \<times> outcome \<times> world" where
  "main sha256 clk ev w0 =
     (let w = init_system sha256 (now_init clk) w0 in
      case (if current_user w \<noteq> None then sidebar ev w else None) of
        Some w' \<Rightarrow> (NoView, Rerun, w')
      | None \<Rightarrow> route sha256 clk ev w)"

text \<open>
  The states the application can be in: the first start on empty stores, any run of
  \<^verbatim>\<open>main\<close> on any interaction at any clock, and a new browser session over the stores.
\<close>

inductive reachable :: "(string \<Rightarrow> string) \<Rightarrow> world \<Rightarrow> bool" for sha256 :: "string \<Rightarrow> string" where
  start: "reachable sha256 initial_world"
| run: "reachable sha256 w \<Longrightarrow> reachable sha256 (snd (snd (main sha256 clk ev w)))"
| fresh: "reachable sha256 w \<Longrightarrow> reachable sha256 (new_session w)"

section \<open>Invariants and example states\<close>

text \<open>Every stored complaint has one of the five statuses.\<close>

definition status_inv :: "world \<Rightarrow> bool" where
  "status_inv w \<longleftrightarrow> (\<forall>c\<in>set (complaints_file w). c_status c \<in> set status_options)"

text \<open>A session without a user is on the login or the register page.\<close>

definition session_inv :: "world \<Rightarrow> bool" where
  "session_inv w \<longleftrightarrow> (current_user w = None \<longrightarrow> page w = ''login'' \<or> page w = ''register'')"

text \<open>
  Concrete states for evaluating the model. The digest is replaced by \<^term>\<open>rev\<close>, which is
  as good as any other function for running the code.
\<close>

definition example_clock :: clock where
  "example_clock =
     \<lparr>date_today = \<lparr>d_year = 2024, d_month = 5, d_day = 17\<rparr>,
      now_init = ''2024-05-17T09:00:00'', now_a = ''2024-05-17T09:00:01'',
      now_b = ''2024-05-17T09:00:02''\<rparr>"

definition yesterday :: date where
  "yesterday = \<lparr>d_year = 2024, d_month = 5, d_day = 16\<rparr>"


definition ann :: user where
  "ann = new_user rev ''2024-05-16T08:00:00'' ''Ann'' ''ann@example.org'' ''555'' ''pw''"

definition ann_world :: world where
  "ann_world = initial_world\<lparr>users_file := [(''ann@example.org'', ann)]\<rparr>"

definition filing_world :: world where
  "filing_world = ann_world\<lparr>current_user := Some ann, page := ''file_complaint''\<rparr>"

definition pothole :: complaint where
  "pothole =
     new_complaint ''2024-05-17T09:00:01'' ''2024-05-17T09:00:02'' 1 ann ''Pothole''
       ''Civic Body'' ''Large pothole on Main St'' ''Main St'' yesterday None"

definition streetlight :: complaint where
  "streetlight =
     new_complaint ''2024-05-17T10:30:00'' ''2024-05-17T10:30:00'' 2 ann ''Streetlight''
       ''Public Services'' ''Lamp out at the corner'' ''Oak Ave'' yesterday None"

definition bribe :: complaint where
  "bribe =
     \<lparr>c_id = 3, c_user_email = ''bob@example.org'', c_user_name = ''Bob'', c_title = ''Bribe'',
      c_category = ''Corruption'', c_description = ''Clerk asked for money'',
      c_location = ''Town hall'', c_incident_date = ''2024-05-10'', c_evidence_file = None,
      c_status = ''Resolved'', c_department = Some ''Anti-Corruption Bureau'',
      c_admin_notes = Some ''Closed'', c_created_at = ''2024-05-17T10:00:00'',
      c_updated_at = ''2024-05-17T12:00:00''\<rparr>"

definition managing_world :: world where
  "managing_world =
     initial_world\<lparr>complaints_file := [pothole, streetlight, bribe],
                    selected_complaint := Some 3, page := ''manage_complaint''\<rparr>"

text \<open>A session with no user whose selector is the administrator's dashboard.\<close>

definition stray_session :: world where
  "stray_session = initial_world\<lparr>page := ''admin_dashboard''\<rparr>"

text \<open>
  A run of the application from the first start: open the registration page, register,
  log in, open the filing page, file a complaint.
\<close>

definition runs :: "(string \<Rightarrow> string) \<Rightarrow> clock \<Rightarrow> event list \<Rightarrow> world \<Rightarrow> world" where
  "runs sha256 clk evs w = foldl (\<lambda>w ev. snd (snd (main sha256 clk ev w))) w evs"

definition example_events :: "event list" where
  "example_events =
     [ClickRegisterHere,
      RegisterSubmit ''Ann'' ''ann@example.org'' ''555'' ''pw'' ''pw'',
      LoginSubmit ''ann@example.org'' ''pw'',
      ClickFileNew,
      ComplaintSubmit ''Pothole'' CivicBody ''Large pothole on Main St'' ''Main St'' yesterday None]"

definition example_run :: world where
  "example_run = runs rev example_clock example_events initial_world"

section \<open>Properties of the credential store\<close>

lemma update_absent: "map_of al k = None \<Longrightarrow> AList.update k v al = al @ [(k, v)]"
  by (induction al) (auto split: if_splits)

lemma new_user_password:
  "u_password (new_user sha256 now name email phone password) = hash_password sha256 password"
  by (simp add: new_user_def)

text \<open>
  Claim C9. On an empty user table \<^verbatim>\<open>init_system\<close> stores exactly one record, under
  \<^verbatim>\<open>admin@justice.gov\<close>: an administrator whose password field is the hash of
  \<^verbatim>\<open>admin123\<close>; \<^verbatim>\<open>authenticate\<close> with these credentials then succeeds and makes that
  record the current user. When the table already has a record for that email,
  \<^verbatim>\<open>init_system\<close> changes nothing, so a changed password is not reset.
\<close>

theorem init_system_bootstrap:
  "(users_file w = [] \<longrightarrow>
      users_file (init_system sha256 now w) = [(''admin@justice.gov'', default_admin sha256 now)] \<and>
      u_is_admin (default_admin sha256 now) \<and>
      u_password (default_admin sha256 now) = hash_password sha256 ''admin123'' \<and>
      authenticate sha256 ''admin@justice.gov'' ''admin123'' (init_system sha256 now w) =
        (Done, (init_system sha256 now w)
                 \<lparr>current_user := Some (default_admin sha256 now), page := ''dashboard''\<rparr>)) \<and>
   (map_of (users_file w) ''admin@justice.gov'' \<noteq> None \<longrightarrow> init_system sha256 now w = w)"
  by (auto simp add: init_system_def Let_def load_users_def save_users_def authenticate_def
      default_admin_def)

text \<open>
  The first start, and a second start over the table the first one left.
\<close>

theorem init_system_bootstrap_witness:
  "users_file initial_world = [] \<and>
   users_file (init_system rev ''t0'' initial_world) =
     [(''admin@justice.gov'', default_admin rev ''t0'')] \<and>
   fst (authenticate rev ''admin@justice.gov'' ''admin123'' (init_system rev ''t0'' initial_world)) = Done \<and>
   map_of (users_file (init_system rev ''t0'' initial_world)) ''admin@justice.gov'' \<noteq> None \<and>
   init_system rev ''t1'' (init_system rev ''t0'' initial_world) = init_system rev ''t0'' initial_world"
  using init_system_bootstrap [of initial_world rev "''t0''"]
    init_system_bootstrap [of "init_system rev ''t0'' initial_world" rev "''t1''"]
  by (simp add: initial_world_def)

text \<open>
  Claim C8, as the code has it. When the table already has a record for the email,
  \<^verbatim>\<open>register\<close> fails and leaves the whole state unchanged, so the existing record is never
  overwritten. The checks of lines 209-212 come first: the error is the required-field
  validation error when one of the five fields is empty, else the password-mismatch
  validation error when the two passwords differ, and the duplicate-email error otherwise,
  that is, whenever all five fields are non-empty and the two passwords agree.
\<close>

theorem register_duplicate_email:
  assumes "map_of (users_file w) email \<noteq> None"
  shows "register sha256 now name email phone password confirm_password w =
           (Failed
              (if name = [] \<or> email = [] \<or> phone = [] \<or> password = [] \<or> confirm_password = []
               then ValidationError MissingField
               else if password \<noteq> confirm_password then ValidationError PasswordMismatch
               else DuplicateEmail),
            w)"
  using assms by (simp add: register_def load_users_def)

theorem register_duplicate_email_witness:
  "map_of (users_file ann_world) ''ann@example.org'' \<noteq> None \<and>
   register rev ''2024-05-17T09:00:01'' ''Bob'' ''ann@example.org'' ''556'' ''pw2'' ''pw2'' ann_world
     = (Failed DuplicateEmail, ann_world) \<and>
   register rev ''2024-05-17T09:00:01'' ''Bob'' ''ann@example.org'' ''556'' ''pw2'' ''pw3'' ann_world
     = (Failed (ValidationError PasswordMismatch), ann_world) \<and>
   register rev ''2024-05-17T09:00:01'' ''Bob'' ''ann@example.org'' [] ''pw2'' ''pw2'' ann_world
     = (Failed (ValidationError MissingField), ann_world) \<and>
   map_of (users_file ann_world) ''ann@example.org'' = Some ann"
proof -
  have h: "map_of (users_file ann_world) ''ann@example.org'' \<noteq> None"
    by (simp add: ann_world_def)
  have a: "map_of (users_file ann_world) ''ann@example.org'' = Some ann"
    by (simp add: ann_world_def)
  show ?thesis
    using h a
      register_duplicate_email [OF h, of rev "''2024-05-17T09:00:01''" "''Bob''" "''556''"
        "''pw2''" "''pw2''"]
      register_duplicate_email [OF h, of rev "''2024-05-17T09:00:01''" "''Bob''" "''556''"
        "''pw2''" "''pw3''"]
      register_duplicate_email [OF h, of rev "''2024-05-17T09:00:01''" "''Bob''" "[]"
        "''pw2''" "''pw2''"]
    by simp
qed

text \<open>
  The claim as written promises the duplicate-email error for every input with a registered
  email. With an empty name the form reports the missing field instead.
\<close>

theorem register_duplicate_counterexample:
  "map_of (users_file ann_world) ''ann@example.org'' \<noteq> None \<and>
   register rev ''2024-05-17T09:00:01'' [] ''ann@example.org'' ''556'' ''pw2'' ''pw2'' ann_world
     = (Failed (ValidationError MissingField), ann_world) \<and>
   Failed (ValidationError MissingField) \<noteq> Failed DuplicateEmail"
  by (simp add: register_def ann_world_def)

text \<open>
  Claim C1, as the code has it. For every non-empty email that has no record yet, every
  non-empty name, phone and password, and the confirmation equal to the password,
  \<^verbatim>\<open>register\<close> appends the new record; \<^verbatim>\<open>authenticate\<close> with the same email and
  password then succeeds with that record, and with any password whose hash differs from
  the stored one it fails with the invalid-credentials error and changes nothing.
\<close>

theorem register_then_authenticate:
  assumes "map_of (users_file w) email = None"
    and "name \<noteq> []" and "email \<noteq> []" and "phone \<noteq> []" and "password \<noteq> []"
  shows "\<exists>w'. register sha256 now name email phone password password w = (Done, w') \<and>
           users_file w' = users_file w @ [(email, new_user sha256 now name email phone password)] \<and>
           map_of (users_file w') email = Some (new_user sha256 now name email phone password) \<and>
           authenticate sha256 email password w' =
             (Done, w'\<lparr>current_user := Some (new_user sha256 now name email phone password),
                       page := ''dashboard''\<rparr>) \<and>
           (\<forall>wrong. hash_password sha256 wrong \<noteq> u_password (new_user sha256 now name email phone password) \<longrightarrow>
              authenticate sha256 email wrong w' = (Failed InvalidCredentials, w'))"
  using assms
  by (simp add: register_def load_users_def save_users_def authenticate_def update_absent
      map_add_def new_user_password)

theorem register_then_authenticate_witness:
  "map_of (users_file initial_world) ''ann@example.org'' = None \<and>
   register rev ''2024-05-16T08:00:00'' ''Ann'' ''ann@example.org'' ''555'' ''pw'' ''pw'' initial_world
     = (Done, ann_world) \<and>
   fst (authenticate rev ''ann@example.org'' ''pw'' ann_world) = Done \<and>
   current_user (snd (authenticate rev ''ann@example.org'' ''pw'' ann_world)) = Some ann \<and>
   authenticate rev ''ann@example.org'' ''pwd'' ann_world = (Failed InvalidCredentials, ann_world)"
proof -
  have h: "map_of (users_file initial_world) ''ann@example.org'' = None"
    by (simp add: initial_world_def)
  have r: "register rev ''2024-05-16T08:00:00'' ''Ann'' ''ann@example.org'' ''555'' ''pw'' ''pw'' initial_world
     = (Done, ann_world)"
    by (simp add: register_def load_users_def save_users_def initial_world_def ann_world_def ann_def)
  show ?thesis
    using h r register_then_authenticate [OF h, of "''Ann''" "''555''" "''pw''" rev "''2024-05-16T08:00:00''"]
    by (auto simp add: ann_def hash_password_def new_user_def)
qed

text \<open>
  The claim as written ranges over every email without a record. The empty email has no
  record in the empty table, and the form rejects it as a missing field: nothing is stored.
\<close>

theorem register_empty_email_counterexample:
  "map_of (users_file initial_world) [] = None \<and> ''Ann'' \<noteq> [] \<and> ''555'' \<noteq> [] \<and> ''pw'' \<noteq> [] \<and>
   register rev ''2024-05-17T09:00:01'' ''Ann'' [] ''555'' ''pw'' ''pw'' initial_world
     = (Failed (ValidationError MissingField), initial_world) \<and>
   users_file initial_world = []"
  by (simp add: register_def initial_world_def)

section \<open>Properties of the complaint store\<close>

text \<open>
  Claim C3. In a session with a current user, filing with non-empty title, category,
  description and location on a list of length \<open>n\<close> appends exactly one complaint: its id
  is \<open>n + 1\<close>, its status \<^verbatim>\<open>Filed\<close>, its department and notes \<^verbatim>\<open>None\<close>, its owner fields
  the email and name of the current user, and \<^verbatim>\<open>created_at\<close> and \<^verbatim>\<open>updated_at\<close> are the
  two readings of the clock that the filing takes (lines 358 and 359).
\<close>

theorem file_complaint_appends:
  assumes "current_user w = Some user"
    and "title \<noteq> []" and "category \<noteq> []" and "description \<noteq> []" and "location \<noteq> []"
  shows "\<exists>w' c. file_complaint now_created now_updated title category description location
                   incident_date evidence_file w = (Done, w') \<and>
           complaints_file w' = complaints_file w @ [c] \<and>
           c_id c = int (length (complaints_file w)) + 1 \<and>
           c_status c = ''Filed'' \<and> c_department c = None \<and> c_admin_notes c = None \<and>
           c_user_email c = u_email user \<and> c_user_name c = u_name user \<and>
           c_created_at c = now_created \<and> c_updated_at c = now_updated \<and>
           c_title c = title \<and> c_category c = category \<and> c_description c = description \<and>
           c_location c = location \<and> c_incident_date c = isoformat incident_date"
  using assms
  by (cases evidence_file)
    (auto simp add: file_complaint_def Let_def load_complaints_def save_complaints_def
      new_complaint_def)

theorem file_complaint_appends_witness:
  "current_user filing_world = Some ann \<and> length (complaints_file filing_world) = 0 \<and>
   file_complaint ''2024-05-17T09:00:01'' ''2024-05-17T09:00:02'' ''Pothole'' ''Civic Body''
       ''Large pothole on Main St'' ''Main St'' yesterday None filing_world
     = (Done, filing_world\<lparr>complaints_file := [pothole], page := ''my_complaints''\<rparr>) \<and>
   c_id pothole = 1 \<and> c_status pothole = ''Filed'' \<and> c_department pothole = None \<and>
   c_user_email pothole = ''ann@example.org'' \<and>
   c_incident_date pothole = ''2024-05-16''"
proof -
  have h: "current_user filing_world = Some ann"
    by (simp add: filing_world_def)
  have e: "file_complaint ''2024-05-17T09:00:01'' ''2024-05-17T09:00:02'' ''Pothole'' ''Civic Body''
       ''Large pothole on Main St'' ''Main St'' yesterday None filing_world
     = (Done, filing_world\<lparr>complaints_file := [pothole], page := ''my_complaints''\<rparr>)"
    by (simp add: file_complaint_def Let_def load_complaints_def save_complaints_def
        filing_world_def ann_world_def initial_world_def pothole_def)
  have d: "c_incident_date pothole = ''2024-05-16''"
    by (simp add: pothole_def new_complaint_def isoformat_def yesterday_def zfill_def
        str_nat.simps)
  have n: "length (complaints_file filing_world) = 0"
    by (simp add: filing_world_def ann_world_def initial_world_def)
  show ?thesis
    using h e d n
      file_complaint_appends [OF h, of "''Pothole''" "''Civic Body''"
        "''Large pothole on Main St''" "''Main St''" "''2024-05-17T09:00:01''"
        "''2024-05-17T09:00:02''" yesterday None]
    by (auto simp add: ann_def new_user_def)
qed










lemma update_status_length:
  "length (update_status now cid status department admin_notes cs) = length cs"
  by (induction cs) simp_all

lemma update_status_first_match:
  assumes "\<exists>c\<in>set cs. c_id c = cid"
  shows "\<exists>i<length cs. c_id (cs ! i) = cid \<and> (\<forall>j<i. c_id (cs ! j) \<noteq> cid) \<and>
           update_status now cid status department admin_notes cs =
             cs[i := (cs ! i)\<lparr>c_status := status,
                               c_department := (if department \<noteq> [] then Some department else None),
                               c_admin_notes := (if admin_notes \<noteq> [] then Some admin_notes else None),
                               c_updated_at := now\<rparr>]"
  using assms
proof (induction cs)
  case Nil
  then show ?case by simp
next
  case (Cons c cs)
  show ?case
  proof (cases "c_id c = cid")
    case True
    then show ?thesis by (intro exI [of _ 0]) simp
  next
    case False
    with Cons.prems have "\<exists>c\<in>set cs. c_id c = cid" by auto
    from Cons.IH [OF this] obtain i where i: "i < length cs" "c_id (cs ! i) = cid"
      "\<forall>j<i. c_id (cs ! j) \<noteq> cid"
      "update_status now cid status department admin_notes cs =
             cs[i := (cs ! i)\<lparr>c_status := status,
                               c_department := (if department \<noteq> [] then Some department else None),
                               c_admin_notes := (if admin_notes \<noteq> [] then Some admin_notes else None),
                               c_updated_at := now\<rparr>]"
      by blast
    show ?thesis
    proof (intro exI [of _ "Suc i"] conjI allI impI)
      show "Suc i < length (c # cs)" using i(1) by simp
      show "c_id ((c # cs) ! Suc i) = cid" using i(2) by simp
      show "c_id ((c # cs) ! j) \<noteq> cid" if "j < Suc i" for j
        using that False i(3) by (cases j) auto
      show "update_status now cid status department admin_notes (c # cs) =
         (c # cs)[Suc i := ((c # cs) ! Suc i)\<lparr>c_status := status,
                               c_department := (if department \<noteq> [] then Some department else None),
                               c_admin_notes := (if admin_notes \<noteq> [] then Some admin_notes else None),
                               c_updated_at := now\<rparr>]"
        using False i(4) by simp
    qed
  qed
qed

text \<open>
  Claim C5. When the list has a complaint with the id, \<^verbatim>\<open>update_status\<close> changes the
  first such complaint, at position \<open>i\<close>, and nothing else: the result is the list with
  position \<open>i\<close> replaced by the same record with new status, department, notes and
  \<^verbatim>\<open>updated_at\<close>. The length and every other position are as before, and the ten other
  fields of the complaint keep their values.
\<close>

theorem update_status_frame:
  assumes "\<exists>c\<in>set cs. c_id c = cid"
  shows "\<exists>i<length cs.
           c_id (cs ! i) = cid \<and> (\<forall>j<i. c_id (cs ! j) \<noteq> cid) \<and>
           update_status now cid status department admin_notes cs =
             cs[i := (cs ! i)\<lparr>c_status := status,
                               c_department := (if department \<noteq> [] then Some department else None),
                               c_admin_notes := (if admin_notes \<noteq> [] then Some admin_notes else None),
                               c_updated_at := now\<rparr>] \<and>
           length (update_status now cid status department admin_notes cs) = length cs \<and>
           (\<forall>j<length cs. j \<noteq> i \<longrightarrow> update_status now cid status department admin_notes cs ! j = cs ! j) \<and>
           c_status (update_status now cid status department admin_notes cs ! i) = status \<and>
           c_updated_at (update_status now cid status department admin_notes cs ! i) = now \<and>
           c_id (update_status now cid status department admin_notes cs ! i) = c_id (cs ! i) \<and>
           c_user_email (update_status now cid status department admin_notes cs ! i) = c_user_email (cs ! i) \<and>
           c_user_name (update_status now cid status department admin_notes cs ! i) = c_user_name (cs ! i) \<and>
           c_title (update_status now cid status department admin_notes cs ! i) = c_title (cs ! i) \<and>
           c_category (update_status now cid status department admin_notes cs ! i) = c_category (cs ! i) \<and>
           c_description (update_status now cid status department admin_notes cs ! i) = c_description (cs ! i) \<and>
           c_location (update_status now cid status department admin_notes cs ! i) = c_location (cs ! i) \<and>
           c_incident_date (update_status now cid status department admin_notes cs ! i) = c_incident_date (cs ! i) \<and>
           c_evidence_file (update_status now cid status department admin_notes cs ! i) = c_evidence_file (cs ! i) \<and>
           c_created_at (update_status now cid status department admin_notes cs ! i) = c_created_at (cs ! i)"
proof -
  from update_status_first_match [OF assms, of now status department admin_notes]
  obtain i where i: "i < length cs" "c_id (cs ! i) = cid" "\<forall>j<i. c_id (cs ! j) \<noteq> cid"
    and eq: "update_status now cid status department admin_notes cs =
             cs[i := (cs ! i)\<lparr>c_status := status,
                               c_department := (if department \<noteq> [] then Some department else None),
                               c_admin_notes := (if admin_notes \<noteq> [] then Some admin_notes else None),
                               c_updated_at := now\<rparr>]"
    by blast
  have others: "\<forall>j<length cs. j \<noteq> i \<longrightarrow> update_status now cid status department admin_notes cs ! j = cs ! j"
    unfolding eq by simp
  have at: "update_status now cid status department admin_notes cs ! i =
      (cs ! i)\<lparr>c_status := status,
                               c_department := (if department \<noteq> [] then Some department else None),
                               c_admin_notes := (if admin_notes \<noteq> [] then Some admin_notes else None),
                               c_updated_at := now\<rparr>"
    unfolding eq using i(1) by simp
  show ?thesis
    using i eq others by (intro exI [of _ i]) (simp add: at update_status_length)
qed

theorem update_status_frame_witness:
  "(\<exists>c\<in>set [pothole, streetlight, bribe]. c_id c = 2) \<and>
   update_status ''2024-05-18T08:00:00'' 2 ''In Progress'' ''Civic Services'' []
       [pothole, streetlight, bribe]
     = [pothole,
        streetlight\<lparr>c_status := ''In Progress'', c_department := Some ''Civic Services'',
                     c_admin_notes := None, c_updated_at := ''2024-05-18T08:00:00''\<rparr>,
        bribe] \<and>
   c_title ([pothole, streetlight, bribe] ! 1) = ''Streetlight''"
proof -
  have h: "\<exists>c\<in>set [pothole, streetlight, bribe]. c_id c = 2"
    by (simp add: streetlight_def new_complaint_def)
  have e: "update_status ''2024-05-18T08:00:00'' 2 ''In Progress'' ''Civic Services'' []
       [pothole, streetlight, bribe]
     = [pothole,
        streetlight\<lparr>c_status := ''In Progress'', c_department := Some ''Civic Services'',
                     c_admin_notes := None, c_updated_at := ''2024-05-18T08:00:00''\<rparr>,
        bribe]"
    by (simp add: pothole_def streetlight_def new_complaint_def)
  show ?thesis
    using h e
      update_status_frame [OF h, of "''2024-05-18T08:00:00''" "''In Progress''"
        "''Civic Services''" "[]"]
    by (simp add: streetlight_def new_complaint_def)
qed

lemma find_update_status:
  "find (\<lambda>c. c_id c = cid) cs = Some c \<Longrightarrow>
   find (\<lambda>c. c_id c = cid) (update_status now cid status department admin_notes cs) =
     Some (c\<lparr>c_status := status,
             c_department := (if department \<noteq> [] then Some department else None),
             c_admin_notes := (if admin_notes \<noteq> [] then Some admin_notes else None),
             c_updated_at := now\<rparr>)"
  by (induction cs) (auto split: if_splits)

text \<open>
  Claim C10. After \<^verbatim>\<open>update_status\<close> the department of the updated complaint is
  \<^verbatim>\<open>None\<close> when the empty choice was selected and the selected string otherwise, and its
  notes are \<^verbatim>\<open>None\<close> when the text was empty and the text otherwise; neither field ever
  holds the empty string.
\<close>

theorem update_status_optional_fields:
  assumes "find (\<lambda>c. c_id c = cid) cs = Some c"
  shows "\<exists>c'. find (\<lambda>c. c_id c = cid) (update_status now cid status department admin_notes cs) = Some c' \<and>
           c_department c' = (if department = [] then None else Some department) \<and>
           c_admin_notes c' = (if admin_notes = [] then None else Some admin_notes) \<and>
           c_department c' \<noteq> Some [] \<and> c_admin_notes c' \<noteq> Some []"
  using find_update_status [OF assms, of now status department admin_notes] by simp

theorem update_status_optional_fields_witness:
  "find (\<lambda>c. c_id c = 3) [pothole, streetlight, bribe] = Some bribe \<and>
   c_department bribe = Some ''Anti-Corruption Bureau'' \<and> c_admin_notes bribe = Some ''Closed'' \<and>
   (\<exists>c'. find (\<lambda>c. c_id c = 3)
            (update_status ''2024-05-18T08:00:00'' 3 ''Rejected'' [] [] [pothole, streetlight, bribe])
          = Some c' \<and> c_department c' = None \<and> c_admin_notes c' = None) \<and>
   (\<exists>c'. find (\<lambda>c. c_id c = 3)
            (update_status ''2024-05-18T08:00:00'' 3 ''Rejected'' ''Court Services'' ''See file''
               [pothole, streetlight, bribe])
          = Some c' \<and> c_department c' = Some ''Court Services'' \<and>
          c_admin_notes c' = Some ''See file'')"
proof -
  have h: "find (\<lambda>c. c_id c = 3) [pothole, streetlight, bribe] = Some bribe"
    by (simp add: pothole_def streetlight_def bribe_def new_complaint_def)
  have b: "c_department bribe = Some ''Anti-Corruption Bureau'' \<and> c_admin_notes bribe = Some ''Closed''"
    by (simp add: bribe_def)
  have c1: "\<exists>c'. find (\<lambda>c. c_id c = 3)
            (update_status ''2024-05-18T08:00:00'' 3 ''Rejected'' [] [] [pothole, streetlight, bribe])
          = Some c' \<and> c_department c' = None \<and> c_admin_notes c' = None"
    using update_status_optional_fields [OF h, of "''2024-05-18T08:00:00''" "''Rejected''" "[]" "[]"]
    by (auto simp del: update_status.simps find.simps)
  have c2: "\<exists>c'. find (\<lambda>c. c_id c = 3)
            (update_status ''2024-05-18T08:00:00'' 3 ''Rejected'' ''Court Services'' ''See file''
               [pothole, streetlight, bribe])
          = Some c' \<and> c_department c' = Some ''Court Services'' \<and>
          c_admin_notes c' = Some ''See file''"
    using update_status_optional_fields [OF h, of "''2024-05-18T08:00:00''" "''Rejected''"
        "''Court Services''" "''See file''"]
    by (auto simp del: update_status.simps find.simps)
  show ?thesis
    using h b c1 c2 by blast
qed

lemma sorted_reverse_mset: "mset (sorted_reverse key xs) = mset xs"
  by (simp add: sorted_reverse_def)

lemma sorted_reverse_descending:
  "sorted_wrt (\<lambda>a b. key b \<le> key a) (sorted_reverse key xs)"
proof -
  have "sorted (map key (sort_key key (rev xs)))" by simp
  then have "sorted_wrt (\<lambda>a b. key a \<le> key b) (sort_key key (rev xs))"
    by (simp add: sorted_map)
  then show ?thesis
    by (simp add: sorted_reverse_def sorted_wrt_rev)
qed

text \<open>
  Claim C6. \<^verbatim>\<open>list_for\<close> returns exactly the complaints of the given owner email, each
  as often as it is stored, and \<^verbatim>\<open>list_all\<close> returns every stored complaint; both are
  ordered by \<^verbatim>\<open>created_at\<close>, latest first.
\<close>

theorem listing_visibility_and_order:
  "set (list_for owner_email complaints) = {c \<in> set complaints. c_user_email c = owner_email} \<and>
   mset (list_for owner_email complaints) =
     filter_mset (\<lambda>c. c_user_email c = owner_email) (mset complaints) \<and>
   sorted_wrt (\<lambda>a b. c_created_at b \<le> c_created_at a) (list_for owner_email complaints) \<and>
   mset (list_all_complaints complaints) = mset complaints \<and>
   sorted_wrt (\<lambda>a b. c_created_at b \<le> c_created_at a) (list_all_complaints complaints)"
proof -
  have m: "mset (list_for owner_email complaints) =
     filter_mset (\<lambda>c. c_user_email c = owner_email) (mset complaints)"
    by (simp add: list_for_def sorted_reverse_mset)
  have "set (list_for owner_email complaints) = set_mset (mset (list_for owner_email complaints))"
    by simp
  also have "\<dots> = {c \<in> set complaints. c_user_email c = owner_email}"
    unfolding m by auto
  finally show ?thesis
    using m by (simp add: list_for_def list_all_complaints_def sorted_reverse_mset
        sorted_reverse_descending)
qed

theorem listing_visibility_and_order_witness:
  "list_for ''ann@example.org'' [pothole, bribe, streetlight] = [streetlight, pothole] \<and>
   list_all_complaints [pothole, bribe, streetlight] = [streetlight, bribe, pothole] \<and>
   set (list_for ''ann@example.org'' [pothole, bribe, streetlight]) =
     {c \<in> set [pothole, bribe, streetlight]. c_user_email c = ''ann@example.org''} \<and>
   sorted_wrt (\<lambda>a b. c_created_at b \<le> c_created_at a)
     (list_all_complaints [pothole, bribe, streetlight])"
proof -
  have a: "list_for ''ann@example.org'' [pothole, bribe, streetlight] = [streetlight, pothole]"
    by (simp add: list_for_def sorted_reverse_def pothole_def bribe_def streetlight_def
        new_complaint_def ann_def new_user_def)
  have b: "list_all_complaints [pothole, bribe, streetlight] = [streetlight, bribe, pothole]"
    by (simp add: list_all_complaints_def sorted_reverse_def pothole_def bribe_def
        streetlight_def new_complaint_def)
  show ?thesis
    using listing_visibility_and_order [of "''ann@example.org''" "[pothole, bribe, streetlight]"]
    unfolding a b by blast
qed

section \<open>Sessions and the status workflow\<close>

lemma status_str_option: "status_str s \<in> set status_options"
  by (cases s) (simp_all add: status_options_def)

lemma status_options_range: "set status_options = range status_str"
proof
  show "set status_options \<subseteq> range status_str"
  proof
    fix x assume "x \<in> set status_options"
    then have "x = status_str Filed \<or> x = status_str UnderReview \<or> x = status_str InProgress
        \<or> x = status_str Resolved \<or> x = status_str Rejected"
      by (simp add: status_options_def)
    then show "x \<in> range status_str" by blast
  qed
  show "range status_str \<subseteq> set status_options"
    using status_str_option by blast
qed

lemma department_str_option: "department_str d \<in> set department_options"
  by (cases d) (simp_all add: department_options_def)

lemma find_id: "find (\<lambda>c. c_id c = cid) cs = Some c \<Longrightarrow> c_id c = cid"
  by (induction cs) (auto split: if_splits)

lemma update_status_statuses:
  "c' \<in> set (update_status now cid status department admin_notes cs) \<Longrightarrow>
   c' \<in> set cs \<or> c_status c' = status"
  by (induction cs) (auto split: if_splits)

lemma init_system_session:
  "current_user (init_system sha256 now w) = current_user w"
  "page (init_system sha256 now w) = page w"
  "complaints_file (init_system sha256 now w) = complaints_file w"
  "selected_complaint (init_system sha256 now w) = selected_complaint w"
  by (simp_all add: init_system_def Let_def save_users_def)

subsection \<open>Every reachable complaint has one of the five statuses\<close>

lemma login_page_complaints:
  "complaints_file (snd (login_page sha256 ev w)) = complaints_file w"
  by (cases ev) (simp_all add: login_page_def authenticate_def split: option.splits)

lemma register_page_complaints:
  "complaints_file (snd (register_page sha256 clk ev w)) = complaints_file w"
  by (cases ev) (simp_all add: register_page_def register_def Let_def save_users_def)

lemma dashboard_page_complaints:
  "complaints_file (snd (dashboard_page ev w)) = complaints_file w"
  by (cases ev) (simp_all add: dashboard_page_def split: option.splits)

lemma my_complaints_page_complaints:
  "complaints_file (snd (my_complaints_page ev w)) = complaints_file w"
  by (cases ev) (simp_all add: my_complaints_page_def Let_def split: option.splits sum.splits)

lemma view_complaint_page_complaints:
  "complaints_file (snd (view_complaint_page ev w)) = complaints_file w"
  by (cases ev) (simp_all add: view_complaint_page_def split: option.splits sum.splits)

lemma admin_dashboard_page_complaints:
  "complaints_file (snd (admin_dashboard_page ev w)) = complaints_file w"
  by (cases ev) (simp_all add: admin_dashboard_page_def Let_def split: option.splits sum.splits)

lemma sidebar_complaints:
  "sidebar ev w = Some w' \<Longrightarrow> complaints_file w' = complaints_file w"
  by (cases ev) (auto simp add: sidebar_def split: option.splits if_splits)

lemma file_complaint_status_inv:
  "status_inv w \<Longrightarrow>
   status_inv (snd (file_complaint t1 t2 title category description location d ef w))"
  by (cases ef)
    (auto simp add: file_complaint_def Let_def status_inv_def load_complaints_def
      save_complaints_def new_complaint_def status_options_def split: option.splits)

lemma status_inv_page [simp]: "status_inv (w\<lparr>page := p\<rparr>) = status_inv w"
  by (simp add: status_inv_def)

lemma file_complaint_page_status_inv:
  "status_inv w \<Longrightarrow> status_inv (snd (file_complaint_page clk ev w))"
  by (cases ev)
    (simp_all add: file_complaint_page_def file_complaint_status_inv)

lemma manage_complaint_page_status_inv:
  "status_inv w \<Longrightarrow> status_inv (snd (manage_complaint_page clk ev w))"
  by (cases ev)
    (auto simp add: manage_complaint_page_def Let_def status_inv_def load_complaints_def
      save_complaints_def status_str_option dest!: update_status_statuses
      split: option.splits sum.splits)

lemma route_status_inv:
  "status_inv w \<Longrightarrow> status_inv (snd (snd (route sha256 clk ev w)))"
  using file_complaint_page_status_inv [of w clk ev]
    manage_complaint_page_status_inv [of w clk ev]
  by (simp add: route_def status_inv_def login_page_complaints register_page_complaints
      dashboard_page_complaints my_complaints_page_complaints view_complaint_page_complaints
      admin_dashboard_page_complaints)

lemma main_status_inv:
  assumes "status_inv w"
  shows "status_inv (snd (snd (main sha256 clk ev w)))"
proof -
  let ?w = "init_system sha256 (now_init clk) w"
  have inv: "status_inv ?w"
    using assms by (simp add: status_inv_def init_system_session)
  show ?thesis
  proof (cases "if current_user ?w \<noteq> None then sidebar ev ?w else None")
    case None
    then show ?thesis
      using route_status_inv [OF inv, of sha256 clk ev] by (simp add: main_def Let_def)
  next
    case (Some w')
    then have "sidebar ev ?w = Some w'" by (simp split: if_splits)
    from sidebar_complaints [OF this] inv have "status_inv w'"
      by (simp add: status_inv_def)
    with Some show ?thesis by (simp add: main_def Let_def)
  qed
qed

lemma reachable_status_inv: "reachable sha256 w \<Longrightarrow> status_inv w"
proof (induction rule: reachable.induct)
  case start
  then show ?case by (simp add: status_inv_def initial_world_def)
next
  case (run w clk ev)
  from run.IH show ?case by (rule main_status_inv)
next
  case (fresh w)
  then show ?case by (simp add: status_inv_def new_session_def)
qed

subsection \<open>A reachable session without a user is on the login or the register page\<close>

lemma sidebar_session_inv: "sidebar ev w = Some w' \<Longrightarrow> session_inv w'"
  by (cases ev) (auto simp add: sidebar_def session_inv_def split: option.splits if_splits)

lemma file_complaint_user:
  "current_user (snd (file_complaint t1 t2 title category description location d ef w))
     = current_user w"
  by (cases ef)
    (auto simp add: file_complaint_def Let_def save_complaints_def split: option.splits)

lemma route_keeps_user:
  assumes "current_user w \<noteq> None"
  shows "current_user (snd (snd (route sha256 clk ev w))) \<noteq> None"
proof -
  have 1: "current_user (snd (login_page sha256 ev w)) \<noteq> None"
    using assms by (cases ev) (auto simp add: login_page_def authenticate_def split: option.splits)
  have 2: "current_user (snd (register_page sha256 clk ev w)) \<noteq> None"
    using assms by (cases ev) (auto simp add: register_page_def register_def Let_def save_users_def)
  have 3: "current_user (snd (dashboard_page ev w)) \<noteq> None"
    using assms by (cases ev) (auto simp add: dashboard_page_def split: option.splits)
  have 4: "current_user (snd (file_complaint_page clk ev w)) \<noteq> None"
    using assms
    by (cases ev) (auto simp add: file_complaint_page_def file_complaint_user)
  have 5: "current_user (snd (my_complaints_page ev w)) \<noteq> None"
    using assms
    by (cases ev) (auto simp add: my_complaints_page_def Let_def split: option.splits sum.splits)
  have 6: "current_user (snd (view_complaint_page ev w)) \<noteq> None"
    using assms
    by (cases ev) (auto simp add: view_complaint_page_def split: option.splits sum.splits)
  have 7: "current_user (snd (admin_dashboard_page ev w)) \<noteq> None"
    using assms
    by (cases ev) (auto simp add: admin_dashboard_page_def Let_def split: option.splits sum.splits)
  have 8: "current_user (snd (manage_complaint_page clk ev w)) \<noteq> None"
    using assms
    by (cases ev)
      (auto simp add: manage_complaint_page_def Let_def save_complaints_def
        split: option.splits sum.splits)
  show ?thesis
    using 1 2 3 4 5 6 7 8 assms by (simp add: route_def)
qed

lemma login_page_session_inv:
  "page w = ''login'' \<Longrightarrow> session_inv (snd (login_page sha256 ev w))"
  by (cases ev)
    (auto simp add: login_page_def authenticate_def session_inv_def split: option.splits)

lemma register_page_session_inv:
  "page w = ''register'' \<Longrightarrow> session_inv (snd (register_page sha256 clk ev w))"
  by (cases ev)
    (auto simp add: register_page_def register_def Let_def save_users_def session_inv_def)

lemma route_session_inv:
  assumes "session_inv w"
  shows "session_inv (snd (snd (route sha256 clk ev w)))"
proof (cases "current_user w")
  case None
  with assms consider "page w = ''login''" | "page w = ''register''"
    by (auto simp add: session_inv_def)
  then show ?thesis
  proof cases
    case 1
    then show ?thesis using login_page_session_inv [OF 1, of sha256 ev]
      by (simp add: route_def)
  next
    case 2
    then show ?thesis using register_page_session_inv [OF 2, of sha256 clk ev]
      by (simp add: route_def)
  qed
next
  case (Some u)
  then have "current_user w \<noteq> None" by simp
  from route_keeps_user [OF this, of sha256 clk ev] show ?thesis
    by (auto simp add: session_inv_def)
qed

lemma main_session_inv:
  assumes "session_inv w"
  shows "session_inv (snd (snd (main sha256 clk ev w)))"
proof -
  let ?w = "init_system sha256 (now_init clk) w"
  have inv: "session_inv ?w"
    using assms by (simp add: session_inv_def init_system_session)
  show ?thesis
  proof (cases "if current_user ?w \<noteq> None then sidebar ev ?w else None")
    case None
    then show ?thesis
      using route_session_inv [OF inv, of sha256 clk ev] by (simp add: main_def Let_def)
  next
    case (Some w')
    then have "sidebar ev ?w = Some w'" by (simp split: if_splits)
    from sidebar_session_inv [OF this] Some show ?thesis by (simp add: main_def Let_def)
  qed
qed

lemma reachable_session_inv: "reachable sha256 w \<Longrightarrow> session_inv w"
proof (induction rule: reachable.induct)
  case start
  then show ?case by (simp add: session_inv_def initial_world_def)
next
  case (run w clk ev)
  from run.IH show ?case by (rule main_session_inv)
next
  case (fresh w)
  then show ?case by (simp add: session_inv_def new_session_def)
qed

lemma main_unauthenticated_view:
  assumes "current_user w = None"
  shows "fst (main sha256 clk ev w) = fst (route sha256 clk ev (init_system sha256 (now_init clk) w))"
  using assms by (simp add: main_def Let_def init_system_session)

subsection \<open>The example run\<close>

lemma reachable_runs:
  "reachable sha256 w \<Longrightarrow> reachable sha256 (runs sha256 clk evs w)"
  unfolding runs_def
  by (induction evs arbitrary: w) (simp_all add: reachable.run)

lemma example_run_value:
  "example_run =
     \<lparr>users_file = [(''admin@justice.gov'', default_admin rev ''2024-05-17T09:00:00''),
                     (''ann@example.org'', new_user rev ''2024-05-17T09:00:01'' ''Ann'' ''ann@example.org'' ''555'' ''pw'')],
      complaints_file = [new_complaint ''2024-05-17T09:00:01'' ''2024-05-17T09:00:02'' 1
         (new_user rev ''2024-05-17T09:00:01'' ''Ann'' ''ann@example.org'' ''555'' ''pw'') ''Pothole''
       ''Civic Body'' ''Large pothole on Main St'' ''Main St'' yesterday None],
      upload_dir = [],
      current_user = Some (new_user rev ''2024-05-17T09:00:01'' ''Ann'' ''ann@example.org'' ''555'' ''pw''),
      page = ''my_complaints'', selected_complaint = None\<rparr>"
  by (simp add: example_run_def runs_def example_events_def main_def route_def init_system_def
      Let_def load_users_def save_users_def sidebar_def login_page_def register_page_def
      register_def authenticate_def dashboard_page_def file_complaint_page_def
      file_complaint_def date_input_def date_le_def load_complaints_def save_complaints_def
      initial_world_def example_clock_def yesterday_def default_admin_def new_user_def
      hash_password_def new_complaint_def)

lemma reachable_example_run: "reachable rev example_run"
  unfolding example_run_def by (rule reachable_runs) (rule reachable.start)

subsection \<open>The claims\<close>

text \<open>
  Claim C2, as the code has it. \<^verbatim>\<open>main\<close> has no redirect: it routes on the page selector
  alone. What holds is an invariant of the sessions the application can reach: a reachable
  session without a current user has the selector \<^verbatim>\<open>login\<close> or \<^verbatim>\<open>register\<close>, so
  \<^verbatim>\<open>main\<close> runs the login or the register page for it and never the dashboard, filing,
  listing, detail, admin or manage page.
\<close>

theorem unauthenticated_reachable_session:
  assumes "reachable sha256 w" and "current_user w = None"
  shows "(page w = ''login'' \<or> page w = ''register'') \<and>
         (fst (main sha256 clk ev w) = LoginView \<or> fst (main sha256 clk ev w) = RegisterView)"
proof -
  from reachable_session_inv [OF assms(1)] assms(2)
  have p: "page w = ''login'' \<or> page w = ''register''"
    by (simp add: session_inv_def)
  then show ?thesis
    using main_unauthenticated_view [OF assms(2), of sha256 clk ev]
    by (auto simp add: route_def init_system_session)
qed

theorem unauthenticated_reachable_session_witness:
  "reachable rev (new_session example_run) \<and> current_user (new_session example_run) = None \<and>
   complaints_file (new_session example_run) \<noteq> [] \<and>
   page (new_session example_run) = ''login'' \<and>
   fst (main rev example_clock ClickManageAll (new_session example_run)) = LoginView"
proof -
  have r: "reachable rev (new_session example_run)"
    using reachable_example_run by (rule reachable.fresh)
  have u: "current_user (new_session example_run) = None"
    by (simp add: new_session_def)
  have p: "page (new_session example_run) = ''login''"
    by (simp add: new_session_def)
  have c: "complaints_file (new_session example_run) \<noteq> []"
    by (simp add: new_session_def example_run_value)
  show ?thesis
    using r u p c unauthenticated_reachable_session [OF r u, of example_clock ClickManageAll]
    by (simp add: main_def Let_def init_system_session route_def)
qed

text \<open>
  The claim as written speaks of every session without a user. For such a session with the
  selector \<^verbatim>\<open>admin_dashboard\<close>, \<^verbatim>\<open>main\<close> runs the administrator's dashboard, which
  renders without reading the current user.
\<close>

theorem unauthenticated_redirect_counterexample:
  "current_user stray_session = None \<and> page stray_session = ''admin_dashboard'' \<and>
   main rev example_clock NoEvent stray_session =
     (AdminDashboardView, Rendered, init_system rev ''2024-05-17T09:00:00'' stray_session) \<and>
   AdminDashboardView \<noteq> LoginView"
  by (simp add: stray_session_def initial_world_def main_def route_def init_system_def Let_def
      load_users_def save_users_def admin_dashboard_page_def load_complaints_def
      list_all_complaints_def sorted_reverse_def example_clock_def)

lemma manage_update_succeeds:
  assumes sel: "selected_complaint w = Some cid"
    and found: "find (\<lambda>c. c_id c = cid) (complaints_file w) = Some c"
    and st: "c_status c = status_str s"
    and dp: "c_department c = None \<or> (\<exists>d. c_department c = Some (department_str d))"
  shows "\<exists>w' c'. manage_complaint_page clk (UpdateSubmit s' department admin_notes) w = (Done, w') \<and>
           find (\<lambda>c. c_id c = cid) (complaints_file w') = Some c' \<and>
           c_status c' = status_str s'"
proof -
  have ok: "\<not> (case c_department c of None \<Rightarrow> False
                | Some d \<Rightarrow> d \<noteq> [] \<and> d \<notin> set department_options)"
    using dp department_str_option by (auto split: option.splits)
  have cid: "c_id c = cid" using found by (rule find_id)
  have page_eq: "manage_complaint_page clk (UpdateSubmit s' department admin_notes) w =
      (Done, (save_complaints
                (update_status (now_a clk) cid (status_str s') (department_str department)
                   admin_notes (complaints_file w)) w)\<lparr>page := ''admin_dashboard''\<rparr>)"
    using sel found st ok cid
    by (simp add: manage_complaint_page_def find_selected_def Let_def load_complaints_def
        status_str_option)
  show ?thesis
    unfolding page_eq
    using find_update_status [OF found, of "now_a clk" "status_str s'"
        "department_str department" admin_notes]
    by (simp add: save_complaints_def)
qed

text \<open>
  Claim C7. Every complaint of a reachable state has one of the five statuses, which are
  exactly the values of the status select box; and for every pair of statuses
  \<open>s\<close>, \<open>s'\<close>, submitting the update form with \<open>s'\<close> for a selected complaint whose
  status is \<open>s\<close> succeeds and leaves it with status \<open>s'\<close>: no order of transitions is
  checked.
\<close>

theorem status_enumeration_and_updates:
  "(reachable sha256 w \<longrightarrow> (\<forall>c\<in>set (complaints_file w). c_status c \<in> set status_options)) \<and>
   set status_options = range status_str \<and>
   (selected_complaint w0 = Some cid \<and>
    find (\<lambda>c. c_id c = cid) (complaints_file w0) = Some c \<and>
    c_status c = status_str s \<and>
    (c_department c = None \<or> (\<exists>d. c_department c = Some (department_str d))) \<longrightarrow>
      (\<exists>w' c'. manage_complaint_page clk (UpdateSubmit s' department admin_notes) w0 = (Done, w') \<and>
          find (\<lambda>c. c_id c = cid) (complaints_file w') = Some c' \<and>
          c_status c' = status_str s'))"
  using reachable_status_inv [of sha256 w] status_options_range
    manage_update_succeeds [of w0 cid c s clk s' department admin_notes]
  by (simp add: status_inv_def)

text \<open>
  The example run has filed one complaint; a resolved complaint is set back to
  \<^verbatim>\<open>Filed\<close>.
\<close>

theorem status_enumeration_and_updates_witness:
  "reachable rev example_run \<and>
   map c_status (complaints_file example_run) = [''Filed''] \<and>
   list_all (\<lambda>c. c_status c \<in> set status_options) (complaints_file example_run) \<and>
   selected_complaint managing_world = Some 3 \<and>
   find (\<lambda>c. c_id c = 3) (complaints_file managing_world) = Some bribe \<and>
   c_status bribe = status_str Resolved \<and>
   c_department bribe = Some (department_str AntiCorruptionBureau) \<and>
   (\<exists>w' c'. manage_complaint_page example_clock (UpdateSubmit Filed NoDepartment []) managing_world
               = (Done, w') \<and>
            find (\<lambda>c. c_id c = 3) (complaints_file w') = Some c' \<and> c_status c' = ''Filed'')"
proof -
  have a: "map c_status (complaints_file example_run) = [''Filed'']"
    by (simp add: example_run_value new_complaint_def)
  have b: "selected_complaint managing_world = Some 3 \<and>
     find (\<lambda>c. c_id c = 3) (complaints_file managing_world) = Some bribe \<and>
     c_status bribe = status_str Resolved \<and>
     c_department bribe = Some (department_str AntiCorruptionBureau)"
    by (simp add: managing_world_def initial_world_def pothole_def streetlight_def bribe_def
        new_complaint_def)
  note t = status_enumeration_and_updates [of rev example_run managing_world 3 bribe Resolved
        example_clock Filed NoDepartment "[]"]
  from t reachable_example_run
  have "\<forall>c\<in>set (complaints_file example_run). c_status c \<in> set status_options"
    by blast
  then have i: "list_all (\<lambda>c. c_status c \<in> set status_options) (complaints_file example_run)"
    by (simp add: list_all_iff)
  from t b
  have "\<exists>w' c'. manage_complaint_page example_clock (UpdateSubmit Filed NoDepartment [])
                 managing_world = (Done, w') \<and>
            find (\<lambda>c. c_id c = 3) (complaints_file w') = Some c' \<and>
            c_status c' = status_str Filed"
    by blast
  then have u: "\<exists>w' c'. manage_complaint_page example_clock (UpdateSubmit Filed NoDepartment [])
                 managing_world = (Done, w') \<and>
            find (\<lambda>c. c_id c = 3) (complaints_file w') = Some c' \<and> c_status c' = ''Filed''"
    by simp
  show ?thesis
    using reachable_example_run a b i u by blast
qed

end
